theory Spec2Isabelle
  imports Complex_Main "HOL-Library.Word" "HOL-Library.Signed_Division" "HOL-Library.Monad_Syntax"
begin

section \<open>The native OpenGL context of juce\_OpenGL\_osx.h\<close>

text \<open>
  A shallow embedding of \<^verbatim>\<open>OpenGLContext::NativeContext\<close>
  (modules/juce\_opengl/native/juce\_OpenGL\_osx.h): the pixel-format attribute list built by
  \<^verbatim>\<open>createAttribs\<close>, the frame pacer \<^verbatim>\<open>sleepIfRenderingTooFast\<close>, the display-link
  bridge \<^verbatim>\<open>setDisplayLinkTarget\<close>, \<^verbatim>\<open>isActive\<close> and \<^verbatim>\<open>shutdownOnRenderThread\<close>.

  Pointers and Objective-C object references are addresses (\<open>nat\<close>), \<open>0\<close> being
  \<^verbatim>\<open>nullptr\<close> and \<^verbatim>\<open>nil\<close>. C++ \<^verbatim>\<open>int\<close> fields that take part in the pixel-format sums are
  32-bit words; the frame pacer's counters are integers, in a range where none of its
  operations can overflow. Calls into the operating system are recorded in a log, in the
  order in which the code makes them.
\<close>

subsection \<open>Pixel-format attributes\<close>

text \<open>
  One slot of the \<^verbatim>\<open>NSOpenGLPixelFormatAttribute\<close> array. The attribute names and the two
  profile values are enumerators of the operating system's headers; they are kept symbolic.
  \<open>Num\<close> is a number the code casts to the slot type, which is an unsigned 32-bit integer.
\<close>

datatype NSOpenGLPixelFormatAttribute =
    NSOpenGLPFAOpenGLProfile
  | NSOpenGLProfileVersion3_2Core
  | NSOpenGLProfileVersionLegacy
  | NSOpenGLPFADoubleBuffer
  | NSOpenGLPFAClosestPolicy
  | NSOpenGLPFANoRecovery
  | NSOpenGLPFAColorSize
  | NSOpenGLPFAAlphaSize
  | NSOpenGLPFADepthSize
  | NSOpenGLPFAStencilSize
  | NSOpenGLPFAAccumSize
  | NSOpenGLPFAMultisample
  | NSOpenGLPFASampleBuffers
  | NSOpenGLPFASamples
  | Num "32 word"

text \<open>
  The fields of \<^verbatim>\<open>OpenGLPixelFormat\<close> that \<^verbatim>\<open>createAttribs\<close> reads. The additions of the
  source are additions of machine integers, so the fields are words and \<open>+\<close> wraps.
\<close>

record OpenGLPixelFormat =
  redBits :: "32 word"
  greenBits :: "32 word"
  blueBits :: "32 word"
  alphaBits :: "32 word"
  depthBufferBits :: "32 word"
  stencilBufferBits :: "32 word"
  accumulationBufferRedBits :: "32 word"
  accumulationBufferGreenBits :: "32 word"
  accumulationBufferBlueBits :: "32 word"
  accumulationBufferAlphaBits :: "32 word"
  multisamplingLevel :: "32 word"

text \<open>
  \<^verbatim>\<open>OpenGLVersion\<close> is an enumeration declared outside this file; a version is its
  underlying integer and the enumerator \<^verbatim>\<open>openGL3_2\<close> is a parameter of \<open>createAttribs\<close>.
\<close>

type_synonym OpenGLVersion = int

text \<open>
  \<^verbatim>\<open>attribs [numAttribs++] = v\<close>. The array is a raw pointer in the source, so a write
  past its end is undefined behaviour: it is the result \<open>None\<close>.
\<close>

definition put ::
  "NSOpenGLPixelFormatAttribute \<Rightarrow> NSOpenGLPixelFormatAttribute list \<times> nat
     \<Rightarrow> (NSOpenGLPixelFormatAttribute list \<times> nat) option" where
  "put v s =
     (case s of (attribs, numAttribs) \<Rightarrow>
        if numAttribs < length attribs
        then Some (attribs[numAttribs := v], numAttribs + 1)
        else None)"

text \<open>
  \<^verbatim>\<open>createAttribs\<close>. \<open>JUCE_OPENGL3\<close> is the preprocessor flag of the same name. The
  result is the array as the function leaves it, with the final value of the local
  \<^verbatim>\<open>numAttribs\<close>.
\<close>

definition createAttribs ::
  "bool \<Rightarrow> OpenGLVersion \<Rightarrow> NSOpenGLPixelFormatAttribute list \<Rightarrow> OpenGLVersion
     \<Rightarrow> OpenGLPixelFormat \<Rightarrow> bool \<Rightarrow> (NSOpenGLPixelFormatAttribute list \<times> nat) option" where
  "createAttribs JUCE_OPENGL3 openGL3_2 attribs version pixFormat shouldUseMultisampling =
     Some (attribs, 0)
     \<bind> (\<lambda>s. if JUCE_OPENGL3
              then put NSOpenGLPFAOpenGLProfile s
                   \<bind> put (if version \<ge> openGL3_2 then NSOpenGLProfileVersion3_2Core
                                                     else NSOpenGLProfileVersionLegacy)
              else Some s)
     \<bind> put NSOpenGLPFADoubleBuffer
     \<bind> put NSOpenGLPFAClosestPolicy
     \<bind> put NSOpenGLPFANoRecovery
     \<bind> put NSOpenGLPFAColorSize
     \<bind> put (Num (redBits pixFormat + greenBits pixFormat + blueBits pixFormat))
     \<bind> put NSOpenGLPFAAlphaSize
     \<bind> put (Num (alphaBits pixFormat))
     \<bind> put NSOpenGLPFADepthSize
     \<bind> put (Num (depthBufferBits pixFormat))
     \<bind> put NSOpenGLPFAStencilSize
     \<bind> put (Num (stencilBufferBits pixFormat))
     \<bind> put NSOpenGLPFAAccumSize
     \<bind> put (Num (accumulationBufferRedBits pixFormat + accumulationBufferGreenBits pixFormat
                    + accumulationBufferBlueBits pixFormat + accumulationBufferAlphaBits pixFormat))
     \<bind> (\<lambda>s. if shouldUseMultisampling
              then put NSOpenGLPFAMultisample s
                   \<bind> put NSOpenGLPFASampleBuffers
                   \<bind> put (Num 1)
                   \<bind> put NSOpenGLPFASamples
                   \<bind> put (Num (multisamplingLevel pixFormat))
              else Some s)"

text \<open>
  The first two statements of the constructor: a local array of 64 slots, all zero, filled
  by \<^verbatim>\<open>createAttribs\<close>.
\<close>

definition constructorAttribs ::
  "bool \<Rightarrow> OpenGLVersion \<Rightarrow> OpenGLVersion \<Rightarrow> OpenGLPixelFormat \<Rightarrow> bool
     \<Rightarrow> (NSOpenGLPixelFormatAttribute list \<times> nat) option" where
  "constructorAttribs JUCE_OPENGL3 openGL3_2 version pixFormat shouldUseMultisampling =
     createAttribs JUCE_OPENGL3 openGL3_2 (replicate 64 (Num 0)) version pixFormat
       shouldUseMultisampling"

text \<open>
  Reading the list back: the values written in order, and the sequence a straight run of
  \<open>put\<close> produces.
\<close>

definition profileAttribs :: "bool \<Rightarrow> OpenGLVersion \<Rightarrow> OpenGLVersion \<Rightarrow> NSOpenGLPixelFormatAttribute list" where
  "profileAttribs JUCE_OPENGL3 openGL3_2 version =
     (if JUCE_OPENGL3
      then [NSOpenGLPFAOpenGLProfile,
            if version \<ge> openGL3_2 then NSOpenGLProfileVersion3_2Core else NSOpenGLProfileVersionLegacy]
      else [])"

definition baseAttribs :: "OpenGLPixelFormat \<Rightarrow> NSOpenGLPixelFormatAttribute list" where
  "baseAttribs pixFormat =
     [NSOpenGLPFADoubleBuffer, NSOpenGLPFAClosestPolicy, NSOpenGLPFANoRecovery,
      NSOpenGLPFAColorSize, Num (redBits pixFormat + greenBits pixFormat + blueBits pixFormat),
      NSOpenGLPFAAlphaSize, Num (alphaBits pixFormat),
      NSOpenGLPFADepthSize, Num (depthBufferBits pixFormat),
      NSOpenGLPFAStencilSize, Num (stencilBufferBits pixFormat),
      NSOpenGLPFAAccumSize,
      Num (accumulationBufferRedBits pixFormat + accumulationBufferGreenBits pixFormat
           + accumulationBufferBlueBits pixFormat + accumulationBufferAlphaBits pixFormat)]"

definition multisampleAttribs :: "OpenGLPixelFormat \<Rightarrow> bool \<Rightarrow> NSOpenGLPixelFormatAttribute list" where
  "multisampleAttribs pixFormat shouldUseMultisampling =
     (if shouldUseMultisampling
      then [NSOpenGLPFAMultisample, NSOpenGLPFASampleBuffers, Num 1,
            NSOpenGLPFASamples, Num (multisamplingLevel pixFormat)]
      else [])"

fun puts ::
  "NSOpenGLPixelFormatAttribute list \<Rightarrow> NSOpenGLPixelFormatAttribute list \<times> nat
     \<Rightarrow> (NSOpenGLPixelFormatAttribute list \<times> nat) option" where
  "puts [] s = Some s"
| "puts (v # vs) s = put v s \<bind> puts vs"

text \<open>The slot that follows the first occurrence of an attribute name.\<close>

fun attribValue ::
  "NSOpenGLPixelFormatAttribute \<Rightarrow> NSOpenGLPixelFormatAttribute list
     \<Rightarrow> NSOpenGLPixelFormatAttribute option" where
  "attribValue name [] = None"
| "attribValue name [x] = None"
| "attribValue name (x # y # rest) = (if x = name then Some y else attribValue name (y # rest))"

text \<open>The slots a call has written: the first \<^verbatim>\<open>numAttribs\<close> of the array.\<close>

definition written ::
  "(NSOpenGLPixelFormatAttribute list \<times> nat) option \<Rightarrow> NSOpenGLPixelFormatAttribute list option" where
  "written r = map_option (\<lambda>(attribs, numAttribs). take numAttribs attribs) r"

text \<open>A pixel format with 8 bits per colour channel, used in the examples.\<close>

definition examplePixelFormat :: OpenGLPixelFormat where
  "examplePixelFormat =
     \<lparr>redBits = 8, greenBits = 8, blueBits = 8, alphaBits = 8,
      depthBufferBits = 16, stencilBufferBits = 0,
      accumulationBufferRedBits = 1, accumulationBufferGreenBits = 2,
      accumulationBufferBlueBits = 3, accumulationBufferAlphaBits = 4,
      multisamplingLevel = 4\<rparr>"

subsection \<open>The context object and the operating system\<close>

type_synonym ptr = nat

abbreviation (input) nullptr :: ptr where "nullptr \<equiv> 0"

abbreviation (input) nil :: ptr where "nil \<equiv> 0"

text \<open>
  The data members of \<^verbatim>\<open>NativeContext\<close>. \<^verbatim>\<open>lastSwapTime\<close> is a \<^verbatim>\<open>double\<close> holding a
  clock reading in milliseconds; clock readings are real numbers here.
\<close>

record NativeContext =
  pixelFormat :: ptr
  renderContext :: ptr
  view :: ptr
  viewAttachment :: ptr
  lastSwapTime :: real
  minSwapTimeMs :: int
  underrunCounter :: int
  displayLinkTarget :: ptr
  displayLinkRef :: ptr

text \<open>
  A display link of the operating system: the user-data pointer registered together with
  the output callback (\<open>None\<close> while no callback is registered) and whether the link has
  been started.
\<close>

record CVDisplayLink =
  outputCallbackContext :: "ptr option"
  isRunning :: bool

text \<open>The calls the code makes into the operating system, with their arguments.\<close>

datatype PlatformCall =
    NSOpenGLContext_clearCurrentContext
  | NSOpenGLContext_flushBuffer ptr
  | NSOpenGLContext_setSwapInterval ptr int
  | Thread_sleep int
  | CVDisplayLinkCreateWithCGDisplay ptr
  | CVDisplayLinkSetOutputCallback ptr ptr
  | CVDisplayLinkSetCurrentCGDisplayFromOpenGLContext ptr ptr ptr
  | CVDisplayLinkStart ptr
  | CVDisplayLinkStop ptr
  | CVDisplayLinkRelease ptr

text \<open>
  What the code can observe of the operating system: the calls made so far, the display
  links that exist, how many were ever created (a new link gets the next address), and the
  rendering context that is current on the calling thread.
\<close>

record Platform =
  calls :: "PlatformCall list"
  displayLinks :: "ptr \<rightharpoonup> CVDisplayLink"
  linksCreated :: nat
  currentContext :: ptr

type_synonym state = "NativeContext \<times> Platform"

definition newDisplayLink :: "Platform \<Rightarrow> ptr" where
  "newDisplayLink p = Suc (linksCreated p)"

definition updateLink :: "ptr \<Rightarrow> (CVDisplayLink \<Rightarrow> CVDisplayLink) \<Rightarrow> Platform \<Rightarrow> Platform" where
  "updateLink ref f p =
     (case displayLinks p ref of
        None \<Rightarrow> p
      | Some l \<Rightarrow> p\<lparr>displayLinks := (displayLinks p)(ref \<mapsto> f l)\<rparr>)"

text \<open>
  The effect of a call on the operating system's side. Creation of a display link
  succeeds; the code does not look at the result codes of these calls.
\<close>

fun effect :: "PlatformCall \<Rightarrow> Platform \<Rightarrow> Platform" where
  "effect (CVDisplayLinkCreateWithCGDisplay ref) p =
     p\<lparr>displayLinks := (displayLinks p)(ref \<mapsto> \<lparr>outputCallbackContext = None, isRunning = False\<rparr>),
       linksCreated := Suc (linksCreated p)\<rparr>"
| "effect (CVDisplayLinkSetOutputCallback ref userInfo) p =
     updateLink ref (\<lambda>l. l\<lparr>outputCallbackContext := Some userInfo\<rparr>) p"
| "effect (CVDisplayLinkStart ref) p = updateLink ref (\<lambda>l. l\<lparr>isRunning := True\<rparr>) p"
| "effect (CVDisplayLinkStop ref) p = updateLink ref (\<lambda>l. l\<lparr>isRunning := False\<rparr>) p"
| "effect (CVDisplayLinkRelease ref) p = p\<lparr>displayLinks := (displayLinks p)(ref := None)\<rparr>"
| "effect NSOpenGLContext_clearCurrentContext p = p\<lparr>currentContext := nil\<rparr>"
| "effect _ p = p"

definition call :: "PlatformCall \<Rightarrow> Platform \<Rightarrow> Platform" where
  "call c p = (effect c p)\<lparr>calls := calls p @ [c]\<rparr>"

text \<open>
  The member initialisers of the constructor. The four object references are what the
  operating system returned for the pixel format, the view, the rendering context (\<open>nil\<close>
  when it could not be created) and the view attachment.
\<close>

definition NativeContext_ctor :: "ptr \<Rightarrow> ptr \<Rightarrow> ptr \<Rightarrow> ptr \<Rightarrow> NativeContext" where
  "NativeContext_ctor pf v rc va =
     \<lparr>pixelFormat = pf, renderContext = rc, view = v, viewAttachment = va,
      lastSwapTime = 0, minSwapTimeMs = 0, underrunCounter = 0,
      displayLinkTarget = nullptr, displayLinkRef = nullptr\<rparr>"

definition initialPlatform :: Platform where
  "initialPlatform = \<lparr>calls = [], displayLinks = Map.empty, linksCreated = 0, currentContext = nil\<rparr>"





subsection \<open>The frame pacer\<close>

text \<open>
  Modelled from the spec: \<^verbatim>\<open>isPositiveAndBelow\<close> is a helper of the core module, which is
  not among the files at hand. The spec gives the test of the pacer as
  "elapsed is within [0, minSwapTimeMs - 3)".
\<close>

definition isPositiveAndBelow :: "int \<Rightarrow> int \<Rightarrow> bool" where
  "isPositiveAndBelow valueToTest upperLimit = (0 \<le> valueToTest \<and> valueToTest < upperLimit)"

text \<open>
  The cast \<^verbatim>\<open>(int)\<close> of a \<^verbatim>\<open>double\<close>: the fraction is dropped, towards zero. C++
  leaves the cast undefined for a value outside the range of \<^verbatim>\<open>int\<close>; the model gives the
  integer itself.
\<close>

definition toInt :: "real \<Rightarrow> int" where
  "toInt x = (if 0 \<le> x then \<lfloor>x\<rfloor> else \<lceil>x\<rceil>)"

text \<open>
  \<^verbatim>\<open>sleepIfRenderingTooFast\<close>. \<open>now\<close> is what \<^verbatim>\<open>Time::getMillisecondCounterHiRes()\<close>
  returns in this call. The difference of the two clock readings is exact here; the
  \<^verbatim>\<open>double\<close> subtraction of the source rounds it, which can move a difference that lies
  within rounding distance of a whole number of milliseconds across it.
\<close>

definition sleepIfRenderingTooFast :: "real \<Rightarrow> state \<Rightarrow> state" where
  "sleepIfRenderingTooFast now s =
     (case s of (nc, p) \<Rightarrow>
        if minSwapTimeMs nc > 0
        then
          let elapsed = toInt (now - lastSwapTime nc);
              nc = nc\<lparr>lastSwapTime := now\<rparr>
          in if isPositiveAndBelow elapsed (minSwapTimeMs nc - 3)
             then
               if underrunCounter nc > 3
               then (nc, call (Thread_sleep (minSwapTimeMs nc - elapsed)) p)
               else (nc\<lparr>underrunCounter := underrunCounter nc + 1\<rparr>, p)
             else (nc\<lparr>underrunCounter := 0\<rparr>, p)
        else (nc, p))"

definition swapBuffers :: "real \<Rightarrow> state \<Rightarrow> state" where
  "swapBuffers now s =
     (case s of (nc, p) \<Rightarrow>
        sleepIfRenderingTooFast now (nc, call (NSOpenGLContext_flushBuffer (renderContext nc)) p))"

text \<open>
  \<^verbatim>\<open>setSwapInterval\<close>. The product is a product of 32-bit integers and wraps; the division
  of C++ rounds towards zero.
\<close>

definition setSwapInterval :: "int \<Rightarrow> state \<Rightarrow> bool \<times> state" where
  "setSwapInterval numFramesPerSwap s =
     (case s of (nc, p) \<Rightarrow>
        let nc = nc\<lparr>minSwapTimeMs := signed_take_bit 31 (numFramesPerSwap * 1000) sdiv 60\<rparr>;
            p = call (NSOpenGLContext_setSwapInterval (renderContext nc) numFramesPerSwap) p
        in (True, (nc, p)))"

text \<open>The elapsed time the pacer would compute in a call at \<open>now\<close>.\<close>

definition elapsedAt :: "real \<Rightarrow> state \<Rightarrow> int" where
  "elapsedAt now s = toInt (now - lastSwapTime (fst s))"

text \<open>The calls of a list that put the thread to sleep.\<close>

fun isSleep :: "PlatformCall \<Rightarrow> bool" where
  "isSleep (Thread_sleep ms) = True"
| "isSleep _ = False"

definition sleeps :: "state \<Rightarrow> PlatformCall list" where
  "sleeps s = filter isSleep (calls (snd s))"

text \<open>Sequences of calls made by a client of the context.\<close>

datatype Op = SwapBuffers real | SleepIfRenderingTooFast real | SetSwapInterval int

fun step :: "Op \<Rightarrow> state \<Rightarrow> state" where
  "step (SwapBuffers now) s = swapBuffers now s"
| "step (SleepIfRenderingTooFast now) s = sleepIfRenderingTooFast now s"
| "step (SetSwapInterval n) s = snd (setSwapInterval n s)"

definition run :: "Op list \<Rightarrow> state \<Rightarrow> state" where
  "run ops s = fold step ops s"

subsection \<open>The display-link bridge\<close>

datatype error = NullTarget

text \<open>
  \<^verbatim>\<open>displayLinkOutputCallback\<close>: \<open>Inr target\<close> is the call \<^verbatim>\<open>target->displayLink()\<close>
  followed by the return of \<^verbatim>\<open>kCVReturnSuccess\<close>; a null target fails the assertion.
\<close>

definition displayLinkOutputCallback :: "ptr \<Rightarrow> error + ptr" where
  "displayLinkOutputCallback displayLinkContext =
     (let target = displayLinkContext
      in if target \<noteq> nullptr then Inr target else Inl NullTarget)"

text \<open>
  A display refresh on a link: the operating system calls the registered output callback of
  a running link with the user data registered beside it. \<open>None\<close>: nothing is called.
\<close>

definition vsync :: "ptr \<Rightarrow> Platform \<Rightarrow> (error + ptr) option" where
  "vsync ref p =
     (case displayLinks p ref of
        None \<Rightarrow> None
      | Some l \<Rightarrow>
          if isRunning l then map_option displayLinkOutputCallback (outputCallbackContext l)
          else None)"

text \<open>\<^verbatim>\<open>setDisplayLinkTarget\<close>.\<close>

definition setDisplayLinkTarget :: "ptr \<Rightarrow> state \<Rightarrow> state" where
  "setDisplayLinkTarget target s =
     (case s of (nc, p) \<Rightarrow>
        if target = nullptr
        then
          let (nc, p) =
                (if displayLinkRef nc \<noteq> nullptr
                 then
                   let p = call (CVDisplayLinkStop (displayLinkRef nc)) p;
                       p = call (CVDisplayLinkRelease (displayLinkRef nc)) p
                   in (nc\<lparr>displayLinkRef := nullptr\<rparr>, p)
                 else (nc, p))
          in (nc\<lparr>displayLinkTarget := nullptr\<rparr>, p)
        else
          let (nc, p) =
                (if displayLinkRef nc = nullptr
                 then
                   let nc = nc\<lparr>displayLinkRef := newDisplayLink p\<rparr>;
                       p = call (CVDisplayLinkCreateWithCGDisplay (displayLinkRef nc)) p;
                       p = call (CVDisplayLinkSetOutputCallback (displayLinkRef nc) target) p;
                       p = call (CVDisplayLinkSetCurrentCGDisplayFromOpenGLContext
                                   (displayLinkRef nc) (renderContext nc) (pixelFormat nc)) p
                   in (nc, p)
                 else (nc, p));
              nc = nc\<lparr>displayLinkTarget := target\<rparr>
          in (nc, call (CVDisplayLinkStart (displayLinkRef nc)) p))"

text \<open>The display links that exist.\<close>

definition activeLinks :: "state \<Rightarrow> ptr set" where
  "activeLinks s = dom (displayLinks (snd s))"

subsection \<open>States and runs used in the statements\<close>

text \<open>A run of calls of the pacer alone, at the given clock readings.\<close>

definition paced :: "real list \<Rightarrow> state \<Rightarrow> state" where
  "paced ts s = run (map SleepIfRenderingTooFast ts) s"

text \<open>A new context after \<^verbatim>\<open>setSwapInterval (1)\<close>: the minimum swap time is 16 ms.\<close>

definition pacedExample :: state where
  "pacedExample = snd (setSwapInterval 1 (NativeContext_ctor 1 2 3 4, initialPlatform))"

text \<open>One fast swap at interval 1, then the swap interval is set to 0.\<close>

definition disabledAfterUnderrun :: state where
  "disabledAfterUnderrun =
     run [SetSwapInterval 1, SleepIfRenderingTooFast 2, SetSwapInterval 0]
       (NativeContext_ctor 1 2 3 4, initialPlatform)"

text \<open>A new context given the target at address 100, and then the target at address 200.\<close>

definition oneTarget :: state where
  "oneTarget = setDisplayLinkTarget 100 (NativeContext_ctor 1 2 3 4, initialPlatform)"

definition twoTargets :: state where
  "twoTargets =
     setDisplayLinkTarget 200
       (setDisplayLinkTarget 100 (NativeContext_ctor 1 2 3 4, initialPlatform))"

text \<open>The display links that exist are the one the context refers to, if any.\<close>

definition linkInv :: "state \<Rightarrow> bool" where
  "linkInv s =
     (case s of (nc, p) \<Rightarrow>
        dom (displayLinks p) = (if displayLinkRef nc = nullptr then {} else {displayLinkRef nc}))"

section \<open>Properties of the attribute list\<close>

lemma puts_eq:
  "n \<le> length a \<Longrightarrow> puts vs (a, n) =
     (if n + length vs \<le> length a
      then Some (take n a @ vs @ drop (n + length vs) a, n + length vs)
      else None)"
proof (induction vs arbitrary: a n)
  case Nil
  then show ?case by simp
next
  case (Cons v vs)
  show ?case
  proof (cases "n < length a")
    case True
    have upd: "take (Suc n) (a[n := v]) = take n a @ [v]"
      using True by (simp add: take_Suc_conv_app_nth)
    show ?thesis
      using True by (simp add: put_def Cons.IH upd)
  next
    case False
    then show ?thesis by (simp add: put_def)
  qed
qed

lemma puts_Nil_fun: "puts [] = Some"
  by (rule ext) simp

lemma puts_Cons_fun: "puts (v # vs) = (\<lambda>s. put v s \<bind> puts vs)"
  by (rule ext) simp

lemma createAttribs_puts:
  "createAttribs g t attribs v pf ms =
     puts (profileAttribs g t v @ baseAttribs pf @ multisampleAttribs pf ms) (attribs, 0)"
  by (cases g; cases ms)
     (simp_all add: createAttribs_def profileAttribs_def baseAttribs_def multisampleAttribs_def
        puts_Nil_fun puts_Cons_fun)

lemma length_profileAttribs: "length (profileAttribs g t v) = (if g then 2 else 0)"
  by (simp add: profileAttribs_def)

lemma length_baseAttribs: "length (baseAttribs pf) = 13"
  by (simp add: baseAttribs_def)

lemma length_multisampleAttribs: "length (multisampleAttribs pf ms) = (if ms then 5 else 0)"
  by (simp add: multisampleAttribs_def)

text \<open>
  The constructor's array after \<^verbatim>\<open>createAttribs\<close>: the values written, then the zeros the
  array was initialised with.
\<close>

lemma constructorAttribs_eq:
  "constructorAttribs g t v pf ms =
     Some ((profileAttribs g t v @ baseAttribs pf @ multisampleAttribs pf ms)
             @ replicate (64 - ((if g then 2 else 0) + 13 + (if ms then 5 else 0))) (Num 0),
           (if g then 2 else 0) + 13 + (if ms then 5 else 0))"
  by (simp add: constructorAttribs_def createAttribs_puts puts_eq length_profileAttribs
      length_baseAttribs length_multisampleAttribs)

text \<open>An array too short for the values is overrun: the model reports it.\<close>

lemma createAttribs_overrun:
  "createAttribs False t (replicate 12 (Num 0)) v pf False = None"
  by (simp add: createAttribs_puts puts_eq length_profileAttribs
      length_baseAttribs length_multisampleAttribs)

text \<open>
  Claim C3. With multisampling off, the array the constructor passes on holds none of the
  three multisample attribute names. With multisampling on, the slots written are those of
  the call with multisampling off followed by one block: the multisample attribute, the
  sample-buffers attribute with the value 1, and the samples attribute with the requested
  \<^verbatim>\<open>multisamplingLevel\<close>; each of the three names occurs exactly once in the array.
\<close>

theorem multisample_block_only_when_requested:
  "\<exists>a0 n0 a1 n1.
     constructorAttribs g t v pf False = Some (a0, n0)
     \<and> NSOpenGLPFAMultisample \<notin> set a0
     \<and> NSOpenGLPFASampleBuffers \<notin> set a0
     \<and> NSOpenGLPFASamples \<notin> set a0
     \<and> constructorAttribs g t v pf True = Some (a1, n1)
     \<and> n1 = n0 + 5
     \<and> take n1 a1 = take n0 a0 @ [NSOpenGLPFAMultisample, NSOpenGLPFASampleBuffers, Num 1,
                                  NSOpenGLPFASamples, Num (multisamplingLevel pf)]
     \<and> count_list a1 NSOpenGLPFAMultisample = 1
     \<and> count_list a1 NSOpenGLPFASampleBuffers = 1
     \<and> count_list a1 NSOpenGLPFASamples = 1"
  by (simp add: constructorAttribs_eq profileAttribs_def baseAttribs_def multisampleAttribs_def)

text \<open>
  Claim C4. In every build and for every request, the slot after the colour-size attribute
  holds the sum of the red, green and blue bit depths, the alpha depth follows its own
  attribute, and the slot after the accumulation-size attribute holds the sum of the four
  accumulation depths. The sums are the sums of 32-bit integers that the code computes.
\<close>

theorem color_and_accumulation_sizes_are_sums:
  "\<exists>attribs numAttribs.
     constructorAttribs g t v pf ms = Some (attribs, numAttribs)
     \<and> attribValue NSOpenGLPFAColorSize attribs
         = Some (Num (redBits pf + greenBits pf + blueBits pf))
     \<and> attribValue NSOpenGLPFAAlphaSize attribs = Some (Num (alphaBits pf))
     \<and> attribValue NSOpenGLPFAAccumSize attribs
         = Some (Num (accumulationBufferRedBits pf + accumulationBufferGreenBits pf
                      + accumulationBufferBlueBits pf + accumulationBufferAlphaBits pf))
     \<and> count_list attribs NSOpenGLPFAColorSize = 1
     \<and> count_list attribs NSOpenGLPFAAccumSize = 1"
  by (simp add: constructorAttribs_eq profileAttribs_def baseAttribs_def multisampleAttribs_def)

text \<open>
  Claim C5, as stated, fails: in a build without \<^verbatim>\<open>JUCE_OPENGL3\<close> a request for version
  \<^verbatim>\<open>openGL3_2\<close> gets no profile attribute; the list starts with the double-buffer attribute.
\<close>

theorem profile_attribute_absent_without_JUCE_OPENGL3:
  "(1::int) \<ge> 1 \<and>
   written (constructorAttribs False 1 1 examplePixelFormat False) =
     Some [NSOpenGLPFADoubleBuffer, NSOpenGLPFAClosestPolicy, NSOpenGLPFANoRecovery,
           NSOpenGLPFAColorSize, Num 24, NSOpenGLPFAAlphaSize, Num 8,
           NSOpenGLPFADepthSize, Num 16, NSOpenGLPFAStencilSize, Num 0,
           NSOpenGLPFAAccumSize, Num 10]"
  by (simp add: written_def constructorAttribs_eq profileAttribs_def baseAttribs_def
      multisampleAttribs_def examplePixelFormat_def)

text \<open>
  Claim C5, amended. The slots written are, in this order: in a build with
  \<^verbatim>\<open>JUCE_OPENGL3\<close> the profile attribute and its value (the 3.2 core profile when the
  version is at least \<^verbatim>\<open>openGL3_2\<close>, the legacy profile otherwise), and nothing in a build
  without it; then, for every request, double buffer, closest policy, no recovery, colour
  size, alpha size, depth size, stencil size and accumulation size with their values; then
  the multisample block when multisampling was asked for.
\<close>

theorem createAttribs_order:
  "written (constructorAttribs g t v pf ms) =
     Some ((if g then [NSOpenGLPFAOpenGLProfile,
                       if v \<ge> t then NSOpenGLProfileVersion3_2Core
                       else NSOpenGLProfileVersionLegacy]
            else [])
           @ [NSOpenGLPFADoubleBuffer, NSOpenGLPFAClosestPolicy, NSOpenGLPFANoRecovery,
              NSOpenGLPFAColorSize, Num (redBits pf + greenBits pf + blueBits pf),
              NSOpenGLPFAAlphaSize, Num (alphaBits pf),
              NSOpenGLPFADepthSize, Num (depthBufferBits pf),
              NSOpenGLPFAStencilSize, Num (stencilBufferBits pf),
              NSOpenGLPFAAccumSize,
              Num (accumulationBufferRedBits pf + accumulationBufferGreenBits pf
                   + accumulationBufferBlueBits pf + accumulationBufferAlphaBits pf)]
           @ (if ms then [NSOpenGLPFAMultisample, NSOpenGLPFASampleBuffers, Num 1,
                          NSOpenGLPFASamples, Num (multisamplingLevel pf)]
              else []))"
  by (simp add: written_def constructorAttribs_eq profileAttribs_def baseAttribs_def
      multisampleAttribs_def)

text \<open>
  Claim C10. For every request the constructor's call of \<^verbatim>\<open>createAttribs\<close> stays inside
  the array of 64 slots: it writes 2 profile slots in a build with \<^verbatim>\<open>JUCE_OPENGL3\<close>, 13
  base slots, and 5 multisample slots when multisampling is on, at most 20 in all; every
  slot from \<^verbatim>\<open>numAttribs\<close> on still holds the zero it was initialised with, so the list is
  terminated.
\<close>

theorem createAttribs_within_buffer:
  "\<exists>attribs numAttribs.
     constructorAttribs g t v pf ms = Some (attribs, numAttribs)
     \<and> numAttribs = (if g then 2 else 0) + 13 + (if ms then 5 else 0)
     \<and> numAttribs \<le> 20 \<and> numAttribs < 64 \<and> length attribs = 64
     \<and> drop numAttribs attribs = replicate (64 - numAttribs) (Num 0)
     \<and> attribs ! numAttribs = Num 0"
  by (simp add: constructorAttribs_eq length_profileAttribs
      length_baseAttribs length_multisampleAttribs nth_append)

section \<open>Properties of the frame pacer\<close>

lemma calls_call [simp]: "calls (call c p) = calls p @ [c]"
  by (simp add: call_def)

lemma pacer_disabled:
  "minSwapTimeMs (fst s) \<le> 0 \<Longrightarrow> sleepIfRenderingTooFast now s = s"
  by (cases s) (simp add: sleepIfRenderingTooFast_def)

lemma pacer_fast:
  assumes "0 < minSwapTimeMs nc"
    and "isPositiveAndBelow (elapsedAt now (nc, p)) (minSwapTimeMs nc - 3)"
    and "underrunCounter nc \<le> 3"
  shows "sleepIfRenderingTooFast now (nc, p)
           = (nc\<lparr>lastSwapTime := now, underrunCounter := underrunCounter nc + 1\<rparr>, p)"
  using assms by (simp add: sleepIfRenderingTooFast_def elapsedAt_def Let_def)

lemma pacer_sleep:
  assumes "0 < minSwapTimeMs nc"
    and "isPositiveAndBelow (elapsedAt now (nc, p)) (minSwapTimeMs nc - 3)"
    and "underrunCounter nc > 3"
  shows "sleepIfRenderingTooFast now (nc, p)
           = (nc\<lparr>lastSwapTime := now\<rparr>,
              call (Thread_sleep (minSwapTimeMs nc - elapsedAt now (nc, p))) p)"
  using assms by (simp add: sleepIfRenderingTooFast_def elapsedAt_def Let_def)

lemma pacer_slow:
  assumes "0 < minSwapTimeMs nc"
    and "\<not> isPositiveAndBelow (elapsedAt now (nc, p)) (minSwapTimeMs nc - 3)"
  shows "sleepIfRenderingTooFast now (nc, p)
           = (nc\<lparr>lastSwapTime := now, underrunCounter := 0\<rparr>, p)"
  using assms by (simp add: sleepIfRenderingTooFast_def elapsedAt_def Let_def)

lemma pacer_minSwapTimeMs:
  "minSwapTimeMs (fst (sleepIfRenderingTooFast now s)) = minSwapTimeMs (fst s)"
  by (cases s) (simp add: sleepIfRenderingTooFast_def Let_def)

text \<open>
  The integers of the pacer stay inside the range of a 32-bit \<^verbatim>\<open>int\<close>: the minimum swap
  time that \<^verbatim>\<open>setSwapInterval\<close> stores, and with it every difference the pacer computes.
\<close>

lemma setSwapInterval_in_range:
  "- (2 ^ 31) \<le> minSwapTimeMs (fst (snd (setSwapInterval n s)))
   \<and> minSwapTimeMs (fst (snd (setSwapInterval n s))) < 2 ^ 31"
proof -
  define k where "k = signed_take_bit 31 (n * 1000)"
  have lo: "- (2 ^ 31) \<le> k" unfolding k_def by (rule signed_take_bit_int_greater_eq_minus_exp)
  have hi: "k < 2 ^ 31" unfolding k_def by (rule signed_take_bit_int_less_exp)
  have "- (2 ^ 31) \<le> k sdiv 60 \<and> k sdiv 60 < 2 ^ 31"
  proof (cases "0 \<le> k")
    case True
    then have "k sdiv 60 = k div 60" by (simp add: signed_divide_int_def sgn_if)
    moreover have "0 \<le> k div 60" using True by simp
    moreover have "k div 60 \<le> k" using zdiv_mono2 [of k 1 60] True by simp
    ultimately show ?thesis using hi by linarith
  next
    case False
    then have "k sdiv 60 = - ((- k) div 60)" by (simp add: signed_divide_int_def sgn_if)
    moreover have "0 \<le> (- k) div 60" using False by simp
    moreover have "(- k) div 60 \<le> - k" using zdiv_mono2 [of "- k" 1 60] False by simp
    moreover have "(0::int) < 2 ^ 31" by simp
    ultimately show ?thesis using lo by linarith
  qed
  then show ?thesis
    by (cases s) (simp add: setSwapInterval_def Let_def k_def)
qed

lemma pacer_arithmetic_in_range:
  assumes "0 < m" and "m < 2 ^ 31" and "isPositiveAndBelow e (m - 3)"
  shows "- (2 ^ 31) \<le> m - 3 \<and> 0 < m - e \<and> m - e < 2 ^ 31"
  using assms by (auto simp: isPositiveAndBelow_def)

lemma paced_Nil: "paced [] s = s"
  by (simp add: paced_def run_def)

lemma paced_Cons: "paced (t # ts) s = paced ts (sleepIfRenderingTooFast t s)"
  by (simp add: paced_def run_def)

lemma paced_append: "paced (xs @ ys) s = paced ys (paced xs s)"
  by (simp add: paced_def run_def)

lemma paced_minSwapTimeMs: "minSwapTimeMs (fst (paced ts s)) = minSwapTimeMs (fst s)"
  by (induction ts arbitrary: s) (simp_all add: paced_Nil paced_Cons pacer_minSwapTimeMs)

text \<open>
  Claim C1. A context with \<^verbatim>\<open>minSwapTimeMs\<close> 16 and \<^verbatim>\<open>underrunCounter\<close> 0 is paced five
  times in a row, each time with an elapsed time of 2 ms. The first four calls make no call
  into the operating system, so none sleeps, and leave the counter at 1, 2, 3 and 4. The
  fifth call sleeps for 16 - 2 ms and leaves the counter at 4. After any further calls of
  the pacer, a call whose elapsed time is at least 13 ms leaves the counter at 0.
\<close>

theorem pacer_sleeps_on_fifth_fast_swap:
  assumes m: "minSwapTimeMs (fst s) = 16" and c: "underrunCounter (fst s) = 0"
    and e1: "elapsedAt t1 s = 2"
    and e2: "elapsedAt t2 (paced [t1] s) = 2"
    and e3: "elapsedAt t3 (paced [t1, t2] s) = 2"
    and e4: "elapsedAt t4 (paced [t1, t2, t3] s) = 2"
    and e5: "elapsedAt t5 (paced [t1, t2, t3, t4] s) = 2"
  shows "underrunCounter (fst (paced [t1] s)) = 1
       \<and> calls (snd (paced [t1] s)) = calls (snd s)
       \<and> underrunCounter (fst (paced [t1, t2] s)) = 2
       \<and> calls (snd (paced [t1, t2] s)) = calls (snd s)
       \<and> underrunCounter (fst (paced [t1, t2, t3] s)) = 3
       \<and> calls (snd (paced [t1, t2, t3] s)) = calls (snd s)
       \<and> underrunCounter (fst (paced [t1, t2, t3, t4] s)) = 4
       \<and> calls (snd (paced [t1, t2, t3, t4] s)) = calls (snd s)
       \<and> underrunCounter (fst (paced [t1, t2, t3, t4, t5] s)) = 4
       \<and> calls (snd (paced [t1, t2, t3, t4, t5] s)) = calls (snd s) @ [Thread_sleep (16 - 2)]
       \<and> (\<forall>ts t. 13 \<le> elapsedAt t (paced ([t1, t2, t3, t4, t5] @ ts) s)
             \<longrightarrow> underrunCounter (fst (paced ([t1, t2, t3, t4, t5] @ ts @ [t]) s)) = 0)"
proof -
  obtain nc p where s: "s = (nc, p)" by (cases s)
  have band: "isPositiveAndBelow 2 (16 - 3)" by (simp add: isPositiveAndBelow_def)
  define n1 where "n1 = nc\<lparr>lastSwapTime := t1, underrunCounter := 1\<rparr>"
  define n2 where "n2 = nc\<lparr>lastSwapTime := t2, underrunCounter := 2\<rparr>"
  define n3 where "n3 = nc\<lparr>lastSwapTime := t3, underrunCounter := 3\<rparr>"
  define n4 where "n4 = nc\<lparr>lastSwapTime := t4, underrunCounter := 4\<rparr>"
  define n5 where "n5 = nc\<lparr>lastSwapTime := t5, underrunCounter := 4\<rparr>"
  have s1: "paced [t1] s = (n1, p)"
    using m c e1 band pacer_fast [of nc t1 p]
    by (simp add: paced_Cons paced_Nil s n1_def)
  have s2: "paced [t1, t2] s = (n2, p)"
    using m e2 band pacer_fast [of n1 t2 p] s1
    by (simp add: paced_Cons paced_Nil s n1_def n2_def)
  have s3: "paced [t1, t2, t3] s = (n3, p)"
    using m e3 band pacer_fast [of n2 t3 p] s2
    by (simp add: paced_Cons paced_Nil s n2_def n3_def)
  have s4: "paced [t1, t2, t3, t4] s = (n4, p)"
    using m e4 band pacer_fast [of n3 t4 p] s3
    by (simp add: paced_Cons paced_Nil s n3_def n4_def)
  have s5: "paced [t1, t2, t3, t4, t5] s = (n5, call (Thread_sleep (16 - 2)) p)"
    using m e5 band pacer_sleep [of n4 t5 p] s4
    by (simp add: paced_Cons paced_Nil s n4_def n5_def)
  have later: "underrunCounter (fst (paced ([t1, t2, t3, t4, t5] @ ts @ [t]) s)) = 0"
    if late: "13 \<le> elapsedAt t (paced ([t1, t2, t3, t4, t5] @ ts) s)" for ts t
  proof -
    obtain nc' p' where s': "paced ([t1, t2, t3, t4, t5] @ ts) s = (nc', p')"
      by (cases "paced ([t1, t2, t3, t4, t5] @ ts) s")
    have m': "minSwapTimeMs nc' = 16"
      using paced_minSwapTimeMs [of "[t1, t2, t3, t4, t5] @ ts" s] m s' by simp
    have "\<not> isPositiveAndBelow (elapsedAt t (nc', p')) (minSwapTimeMs nc' - 3)"
      using late s' m' by (simp add: isPositiveAndBelow_def)
    then have "sleepIfRenderingTooFast t (nc', p')
                 = (nc'\<lparr>lastSwapTime := t, underrunCounter := 0\<rparr>, p')"
      using m' by (simp add: pacer_slow)
    moreover have "paced ([t1, t2, t3, t4, t5] @ ts @ [t]) s
                     = sleepIfRenderingTooFast t (paced ([t1, t2, t3, t4, t5] @ ts) s)"
      using paced_append [of "[t1, t2, t3, t4, t5] @ ts" "[t]" s]
      by (simp add: paced_Cons paced_Nil)
    ultimately show ?thesis using s' by simp
  qed
  show ?thesis
    using s1 s2 s3 s4 s5 later
    by (simp add: s n1_def n2_def n3_def n4_def n5_def)
qed

lemma pacedExample_eq:
  "pacedExample =
     (\<lparr>pixelFormat = 1, renderContext = 3, view = 2, viewAttachment = 4,
       lastSwapTime = 0, minSwapTimeMs = 16, underrunCounter = 0,
       displayLinkTarget = 0, displayLinkRef = 0\<rparr>,
      \<lparr>calls = [NSOpenGLContext_setSwapInterval 3 1], displayLinks = Map.empty,
       linksCreated = 0, currentContext = 0\<rparr>)"
  by (simp add: pacedExample_def setSwapInterval_def NativeContext_ctor_def initialPlatform_def
      call_def)

text \<open>
  The run of claim C1 on a new context after \<^verbatim>\<open>setSwapInterval (1)\<close>, with the clock at 2,
  4, 6, 8 and 10 ms and then at 30 ms.
\<close>

theorem pacer_sleeps_on_fifth_fast_swap_witness:
  "minSwapTimeMs (fst pacedExample) = 16 \<and> underrunCounter (fst pacedExample) = 0
   \<and> elapsedAt 2 pacedExample = 2
   \<and> elapsedAt 4 (paced [2] pacedExample) = 2
   \<and> elapsedAt 6 (paced [2, 4] pacedExample) = 2
   \<and> elapsedAt 8 (paced [2, 4, 6] pacedExample) = 2
   \<and> elapsedAt 10 (paced [2, 4, 6, 8] pacedExample) = 2
   \<and> underrunCounter (fst (paced [2, 4, 6, 8] pacedExample)) = 4
   \<and> calls (snd (paced [2, 4, 6, 8] pacedExample)) = [NSOpenGLContext_setSwapInterval 3 1]
   \<and> calls (snd (paced [2, 4, 6, 8, 10] pacedExample))
        = [NSOpenGLContext_setSwapInterval 3 1, Thread_sleep 14]
   \<and> 13 \<le> elapsedAt 30 (paced [2, 4, 6, 8, 10] pacedExample)
   \<and> underrunCounter (fst (paced [2, 4, 6, 8, 10, 30] pacedExample)) = 0"
proof -
  have ev: "sleepIfRenderingTooFast t (nc, p) =
     (if minSwapTimeMs nc > 0
        then
          let elapsed = toInt (t - lastSwapTime nc);
              nc = nc\<lparr>lastSwapTime := t\<rparr>
          in if isPositiveAndBelow elapsed (minSwapTimeMs nc - 3)
             then
               if underrunCounter nc > 3
               then (nc, call (Thread_sleep (minSwapTimeMs nc - elapsed)) p)
               else (nc\<lparr>underrunCounter := underrunCounter nc + 1\<rparr>, p)
             else (nc\<lparr>underrunCounter := 0\<rparr>, p)
        else (nc, p))" for t nc p
    by (simp add: sleepIfRenderingTooFast_def)
  have m: "minSwapTimeMs (fst pacedExample) = 16" and c: "underrunCounter (fst pacedExample) = 0"
    by (simp_all add: pacedExample_eq)
  have e1: "elapsedAt 2 pacedExample = 2"
    by (simp add: pacedExample_eq elapsedAt_def toInt_def)
  have e2: "elapsedAt 4 (paced [2] pacedExample) = 2"
    by (simp add: pacedExample_eq elapsedAt_def toInt_def paced_Cons paced_Nil ev
        isPositiveAndBelow_def Let_def)
  have e3: "elapsedAt 6 (paced [2, 4] pacedExample) = 2"
    by (simp add: pacedExample_eq elapsedAt_def toInt_def paced_Cons paced_Nil ev
        isPositiveAndBelow_def Let_def)
  have e4: "elapsedAt 8 (paced [2, 4, 6] pacedExample) = 2"
    by (simp add: pacedExample_eq elapsedAt_def toInt_def paced_Cons paced_Nil ev
        isPositiveAndBelow_def Let_def)
  have e5: "elapsedAt 10 (paced [2, 4, 6, 8] pacedExample) = 2"
    by (simp add: pacedExample_eq elapsedAt_def toInt_def paced_Cons paced_Nil ev
        isPositiveAndBelow_def Let_def)
  have e6: "13 \<le> elapsedAt 30 (paced [2, 4, 6, 8, 10] pacedExample)"
    by (simp add: pacedExample_eq elapsedAt_def toInt_def paced_Cons paced_Nil ev
        isPositiveAndBelow_def Let_def)
  have cs: "calls (snd pacedExample) = [NSOpenGLContext_setSwapInterval 3 1]"
    by (simp add: pacedExample_eq)
  note main = pacer_sleeps_on_fifth_fast_swap [OF m c e1 e2 e3 e4 e5]
  from main have last: "underrunCounter (fst (paced ([2, 4, 6, 8, 10] @ [] @ [30]) pacedExample)) = 0"
    using e6 by (metis append_Nil2)
  show ?thesis
    using m c e1 e2 e3 e4 e5 e6 main last cs by simp
qed

text \<open>
  Claim C7. While \<^verbatim>\<open>minSwapTimeMs\<close> is not positive, any sequence of calls of the pacer,
  at any clock readings, returns the state it was given: no call into the operating system
  and so no sleep, the same \<^verbatim>\<open>underrunCounter\<close> and the same \<^verbatim>\<open>lastSwapTime\<close>. The same
  sequence of calls of \<^verbatim>\<open>swapBuffers\<close> leaves the context unchanged and adds no sleep.
\<close>

theorem pacer_disabled_is_noop:
  assumes "minSwapTimeMs (fst s) \<le> 0"
  shows "paced ts s = s
         \<and> fst (run (map SwapBuffers ts) s) = fst s
         \<and> sleeps (run (map SwapBuffers ts) s) = sleeps s"
  using assms
proof (induction ts arbitrary: s)
  case Nil
  then show ?case by (simp add: run_def paced_Nil)
next
  case (Cons t ts)
  obtain nc p where s: "s = (nc, p)" by (cases s)
  let ?s1 = "(nc, call (NSOpenGLContext_flushBuffer (renderContext nc)) p)"
  have a: "sleepIfRenderingTooFast t s = s"
    using Cons.prems by (rule pacer_disabled)
  have b: "swapBuffers t s = ?s1"
    using Cons.prems s by (simp add: swapBuffers_def pacer_disabled)
  have c: "minSwapTimeMs (fst ?s1) \<le> 0" using Cons.prems s by simp
  have d: "sleeps ?s1 = sleeps s" by (simp add: sleeps_def s)
  show ?case
    using Cons.IH [OF Cons.prems] Cons.IH [OF c] a b d
    by (simp add: run_def s paced_Cons)
qed

text \<open>The newly constructed context has \<^verbatim>\<open>minSwapTimeMs\<close> 0: claim C7 on three calls.\<close>

theorem pacer_disabled_is_noop_witness:
  "minSwapTimeMs (fst (NativeContext_ctor 1 2 3 4, initialPlatform)) \<le> 0
   \<and> paced [2, 4, 100] (NativeContext_ctor 1 2 3 4, initialPlatform)
       = (NativeContext_ctor 1 2 3 4, initialPlatform)
   \<and> underrunCounter (fst (paced [2, 4, 100] (NativeContext_ctor 1 2 3 4, initialPlatform))) = 0
   \<and> lastSwapTime (fst (paced [2, 4, 100] (NativeContext_ctor 1 2 3 4, initialPlatform))) = 0
   \<and> sleeps (run (map SwapBuffers [2, 4, 100]) (NativeContext_ctor 1 2 3 4, initialPlatform)) = []"
proof -
  have h: "minSwapTimeMs (fst (NativeContext_ctor 1 2 3 4, initialPlatform)) \<le> 0"
    by (simp add: NativeContext_ctor_def)
  have z: "sleeps (NativeContext_ctor 1 2 3 4, initialPlatform) = []"
    by (simp add: sleeps_def initialPlatform_def)
  show ?thesis
    using h z pacer_disabled_is_noop [OF h, of "[2, 4, 100]"]
    by (simp add: NativeContext_ctor_def)
qed

subsection \<open>The range of the underrun counter\<close>

lemma step_counter_cases:
  "underrunCounter (fst (step op s)) = 0
   \<or> underrunCounter (fst (step op s)) = underrunCounter (fst s)
   \<or> (underrunCounter (fst (step op s)) = underrunCounter (fst s) + 1 \<and> underrunCounter (fst s) \<le> 3)"
  by (cases s; cases op)
     (auto simp: swapBuffers_def sleepIfRenderingTooFast_def setSwapInterval_def Let_def)

lemma step_counter_range:
  assumes "0 \<le> underrunCounter (fst s) \<and> underrunCounter (fst s) \<le> 4"
  shows "0 \<le> underrunCounter (fst (step op s)) \<and> underrunCounter (fst (step op s)) \<le> 4"
  using assms step_counter_cases [of op s] by auto

lemma run_counter_range:
  assumes "0 \<le> underrunCounter (fst s) \<and> underrunCounter (fst s) \<le> 4"
  shows "0 \<le> underrunCounter (fst (run ops s)) \<and> underrunCounter (fst (run ops s)) \<le> 4"
  using assms
proof (induction ops arbitrary: s)
  case Nil
  then show ?case by (simp add: run_def)
next
  case (Cons op ops)
  have "run (op # ops) s = run ops (step op s)" by (simp add: run_def)
  then show ?case using Cons.IH [OF step_counter_range [OF Cons.prems]] by simp
qed

lemma step_sleeps:
  "sleeps (step op s) \<noteq> sleeps s \<Longrightarrow> underrunCounter (fst (step op s)) = underrunCounter (fst s)"
  by (cases s; cases op)
     (auto simp: swapBuffers_def sleepIfRenderingTooFast_def setSwapInterval_def Let_def sleeps_def
           split: if_splits)

lemma swapBuffers_counter:
  "underrunCounter (fst (swapBuffers now s)) = underrunCounter (fst (sleepIfRenderingTooFast now s))"
  by (cases s) (simp add: swapBuffers_def sleepIfRenderingTooFast_def Let_def)

text \<open>
  Claim C9, amended. After any sequence of \<^verbatim>\<open>swapBuffers\<close>, \<^verbatim>\<open>sleepIfRenderingTooFast\<close>
  and \<^verbatim>\<open>setSwapInterval\<close> calls on a new context, \<^verbatim>\<open>underrunCounter\<close> is between 0 and 4.
  A further call increments it only if it was at most 3; a call that sleeps leaves it as it
  was; a call of the pacer with a positive \<^verbatim>\<open>minSwapTimeMs\<close> and an elapsed time outside
  [0, minSwapTimeMs - 3) sets it to 0; a call of the pacer with \<^verbatim>\<open>minSwapTimeMs\<close> at most 0
  leaves it as it was.
\<close>

theorem underrunCounter_in_range:
  assumes "s = run ops (NativeContext_ctor pf v rc va, p0)"
  shows "0 \<le> underrunCounter (fst s) \<and> underrunCounter (fst s) \<le> 4
       \<and> (underrunCounter (fst (step op s)) = underrunCounter (fst s) + 1
            \<longrightarrow> underrunCounter (fst s) \<le> 3)
       \<and> (sleeps (step op s) \<noteq> sleeps s
            \<longrightarrow> underrunCounter (fst (step op s)) = underrunCounter (fst s))
       \<and> (0 < minSwapTimeMs (fst s)
            \<and> \<not> isPositiveAndBelow (elapsedAt now s) (minSwapTimeMs (fst s) - 3)
            \<longrightarrow> underrunCounter (fst (sleepIfRenderingTooFast now s)) = 0
                \<and> underrunCounter (fst (swapBuffers now s)) = 0)
       \<and> (minSwapTimeMs (fst s) \<le> 0
            \<longrightarrow> underrunCounter (fst (sleepIfRenderingTooFast now s)) = underrunCounter (fst s)
                \<and> underrunCounter (fst (swapBuffers now s)) = underrunCounter (fst s))"
proof -
  have init: "0 \<le> underrunCounter (fst (NativeContext_ctor pf v rc va, p0))
              \<and> underrunCounter (fst (NativeContext_ctor pf v rc va, p0)) \<le> 4"
    by (simp add: NativeContext_ctor_def)
  have range: "0 \<le> underrunCounter (fst s) \<and> underrunCounter (fst s) \<le> 4"
    unfolding assms by (rule run_counter_range [OF init])
  have incr: "underrunCounter (fst (step op s)) = underrunCounter (fst s) + 1
              \<longrightarrow> underrunCounter (fst s) \<le> 3"
    using step_counter_cases [of op s] range by auto
  have slp: "sleeps (step op s) \<noteq> sleeps s
              \<longrightarrow> underrunCounter (fst (step op s)) = underrunCounter (fst s)"
    using step_sleeps [of op s] by blast
  obtain nc p where s: "s = (nc, p)" by (cases s)
  have reset: "0 < minSwapTimeMs (fst s)
            \<and> \<not> isPositiveAndBelow (elapsedAt now s) (minSwapTimeMs (fst s) - 3)
            \<longrightarrow> underrunCounter (fst (sleepIfRenderingTooFast now s)) = 0
                \<and> underrunCounter (fst (swapBuffers now s)) = 0"
    using pacer_slow [of nc now p] by (simp add: s swapBuffers_counter)
  have off: "minSwapTimeMs (fst s) \<le> 0
            \<longrightarrow> underrunCounter (fst (sleepIfRenderingTooFast now s)) = underrunCounter (fst s)
                \<and> underrunCounter (fst (swapBuffers now s)) = underrunCounter (fst s)"
    using pacer_disabled [of s now] by (auto simp: swapBuffers_counter)
  show ?thesis using range incr slp reset off by blast
qed

text \<open>
  Claim C9, as stated, fails. After one fast swap at swap interval 1 the counter is 1; the
  swap interval is then set to 0. In a call of the pacer 98 ms after the last recorded swap
  the elapsed time is outside [0, minSwapTimeMs - 3), which is empty, and the counter stays
  at 1.
\<close>

theorem counter_not_reset_when_disabled:
  "elapsedAt 100 disabledAfterUnderrun = 98
   \<and> minSwapTimeMs (fst disabledAfterUnderrun) - 3 = - 3
   \<and> \<not> isPositiveAndBelow 98 (- 3)
   \<and> underrunCounter (fst (sleepIfRenderingTooFast 100 disabledAfterUnderrun)) = 1"
  by (simp add: disabledAfterUnderrun_def run_def setSwapInterval_def sleepIfRenderingTooFast_def
      NativeContext_ctor_def initialPlatform_def elapsedAt_def toInt_def isPositiveAndBelow_def
      Let_def call_def)

text \<open>
  Claim C9, amended, on four runs: one where the counter goes from 0 to 1, one where the
  fifth fast swap sleeps with the counter at 4, one where a slow swap resets the counter, and
  one where the pacer is off.
\<close>

theorem underrunCounter_in_range_witness:
  "underrunCounter (fst (run [SetSwapInterval 1] (NativeContext_ctor 1 2 3 4, initialPlatform))) = 0
   \<and> underrunCounter (fst (step (SleepIfRenderingTooFast 2)
        (run [SetSwapInterval 1] (NativeContext_ctor 1 2 3 4, initialPlatform)))) = 0 + 1
   \<and> (0::int) \<le> 3
   \<and> sleeps (step (SleepIfRenderingTooFast 10)
        (run (SetSwapInterval 1 # map SleepIfRenderingTooFast [2, 4, 6, 8])
           (NativeContext_ctor 1 2 3 4, initialPlatform)))
       \<noteq> sleeps (run (SetSwapInterval 1 # map SleepIfRenderingTooFast [2, 4, 6, 8])
           (NativeContext_ctor 1 2 3 4, initialPlatform))
   \<and> underrunCounter (fst (step (SleepIfRenderingTooFast 10)
        (run (SetSwapInterval 1 # map SleepIfRenderingTooFast [2, 4, 6, 8])
           (NativeContext_ctor 1 2 3 4, initialPlatform)))) = 4
   \<and> 0 < minSwapTimeMs (fst (run [SetSwapInterval 1, SleepIfRenderingTooFast 2]
           (NativeContext_ctor 1 2 3 4, initialPlatform)))
   \<and> \<not> isPositiveAndBelow
          (elapsedAt 30 (run [SetSwapInterval 1, SleepIfRenderingTooFast 2]
             (NativeContext_ctor 1 2 3 4, initialPlatform)))
          (minSwapTimeMs (fst (run [SetSwapInterval 1, SleepIfRenderingTooFast 2]
             (NativeContext_ctor 1 2 3 4, initialPlatform))) - 3)
   \<and> underrunCounter (fst (sleepIfRenderingTooFast 30
        (run [SetSwapInterval 1, SleepIfRenderingTooFast 2]
           (NativeContext_ctor 1 2 3 4, initialPlatform)))) = 0
   \<and> minSwapTimeMs (fst disabledAfterUnderrun) \<le> 0
   \<and> underrunCounter (fst (sleepIfRenderingTooFast 100 disabledAfterUnderrun)) = 1"
proof -
  let ?init = "(NativeContext_ctor 1 2 3 4, initialPlatform)"
  let ?a = "run [SetSwapInterval 1] ?init"
  let ?b = "run (SetSwapInterval 1 # map SleepIfRenderingTooFast [2, 4, 6, 8]) ?init"
  let ?c = "run [SetSwapInterval 1, SleepIfRenderingTooFast 2] ?init"
  note ev = run_def setSwapInterval_def sleepIfRenderingTooFast_def NativeContext_ctor_def
    initialPlatform_def elapsedAt_def toInt_def isPositiveAndBelow_def Let_def call_def sleeps_def
  have a0: "underrunCounter (fst ?a) = 0" by (simp add: ev)
  have a1: "underrunCounter (fst (step (SleepIfRenderingTooFast 2) ?a)) = underrunCounter (fst ?a) + 1"
    by (simp add: ev)
  have b1: "sleeps (step (SleepIfRenderingTooFast 10) ?b) \<noteq> sleeps ?b" by (simp add: ev)
  have b0: "underrunCounter (fst ?b) = 4" by (simp add: ev)
  have c1: "0 < minSwapTimeMs (fst ?c)" by (simp add: ev)
  have c2: "\<not> isPositiveAndBelow (elapsedAt 30 ?c) (minSwapTimeMs (fst ?c) - 3)" by (simp add: ev)
  have d0: "minSwapTimeMs (fst disabledAfterUnderrun) \<le> 0"
    by (simp add: disabledAfterUnderrun_def ev)
  have d1: "underrunCounter (fst disabledAfterUnderrun) = 1"
    by (simp add: disabledAfterUnderrun_def ev)
  have A: "underrunCounter (fst ?a) \<le> 3"
    using underrunCounter_in_range [where ops = "[SetSwapInterval 1]" and pf = 1 and v = 2 and rc = 3
        and va = 4 and ?p0.0 = initialPlatform and op = "SleepIfRenderingTooFast 2" and now = 0,
        OF refl] a1
    by blast
  have B: "underrunCounter (fst (step (SleepIfRenderingTooFast 10) ?b)) = underrunCounter (fst ?b)"
    using underrunCounter_in_range [where ops = "SetSwapInterval 1 # map SleepIfRenderingTooFast [2, 4, 6, 8]"
        and pf = 1 and v = 2 and rc = 3 and va = 4 and ?p0.0 = initialPlatform
        and op = "SleepIfRenderingTooFast 10" and now = 0, OF refl] b1
    by blast
  have C: "underrunCounter (fst (sleepIfRenderingTooFast 30 ?c)) = 0"
    using underrunCounter_in_range [where ops = "[SetSwapInterval 1, SleepIfRenderingTooFast 2]"
        and pf = 1 and v = 2 and rc = 3 and va = 4 and ?p0.0 = initialPlatform
        and op = "SleepIfRenderingTooFast 30" and now = 30, OF refl] c1 c2
    by blast
  have D: "underrunCounter (fst (sleepIfRenderingTooFast 100 disabledAfterUnderrun))
             = underrunCounter (fst disabledAfterUnderrun)"
    using underrunCounter_in_range [where op = "SleepIfRenderingTooFast 100" and now = 100,
        OF disabledAfterUnderrun_def] d0
    by blast
  show ?thesis
    using a0 a1 b0 b1 c1 c2 d0 d1 A B C D by simp
qed

section \<open>Properties of the display-link bridge\<close>

lemma displayLinks_call_other [simp]:
  "displayLinks (call (CVDisplayLinkSetCurrentCGDisplayFromOpenGLContext r c f) p) = displayLinks p"
  by (simp add: call_def)

text \<open>
  Claim C6. \<^verbatim>\<open>setDisplayLinkTarget (nullptr)\<close>: with a display link, it stops and releases
  that link, in this order and with no other call, after which the link no longer exists,
  and clears both the reference and the stored target; without a display link it clears the
  stored target and makes no call into the operating system. A second call right after the
  first changes nothing and makes no call. On a context with neither link nor target the
  first call changes nothing either.
\<close>

theorem setDisplayLinkTarget_null_idempotent:
  "(displayLinkRef nc \<noteq> nullptr \<longrightarrow>
      fst (setDisplayLinkTarget nullptr (nc, p))
        = nc\<lparr>displayLinkRef := nullptr, displayLinkTarget := nullptr\<rparr>
      \<and> calls (snd (setDisplayLinkTarget nullptr (nc, p)))
        = calls p @ [CVDisplayLinkStop (displayLinkRef nc), CVDisplayLinkRelease (displayLinkRef nc)]
      \<and> displayLinks (snd (setDisplayLinkTarget nullptr (nc, p))) (displayLinkRef nc) = None)
   \<and> (displayLinkRef nc = nullptr \<longrightarrow>
        setDisplayLinkTarget nullptr (nc, p) = (nc\<lparr>displayLinkTarget := nullptr\<rparr>, p))
   \<and> setDisplayLinkTarget nullptr (setDisplayLinkTarget nullptr (nc, p))
        = setDisplayLinkTarget nullptr (nc, p)
   \<and> (displayLinkRef nc = nullptr \<and> displayLinkTarget nc = nullptr \<longrightarrow>
        setDisplayLinkTarget nullptr (nc, p) = (nc, p))"
  by (simp add: setDisplayLinkTarget_def Let_def call_def)

lemma oneTarget_eq:
  "oneTarget =
     (\<lparr>pixelFormat = 1, renderContext = 3, view = 2, viewAttachment = 4,
       lastSwapTime = 0, minSwapTimeMs = 0, underrunCounter = 0,
       displayLinkTarget = 100, displayLinkRef = 1\<rparr>,
      \<lparr>calls = [CVDisplayLinkCreateWithCGDisplay 1, CVDisplayLinkSetOutputCallback 1 100,
                CVDisplayLinkSetCurrentCGDisplayFromOpenGLContext 1 3 1, CVDisplayLinkStart 1],
       displayLinks = [1 \<mapsto> \<lparr>outputCallbackContext = Some 100, isRunning = True\<rparr>],
       linksCreated = 1, currentContext = 0\<rparr>)"
  by (simp add: oneTarget_def setDisplayLinkTarget_def NativeContext_ctor_def initialPlatform_def
      Let_def call_def newDisplayLink_def updateLink_def)

lemma twoTargets_eq:
  "twoTargets =
     (\<lparr>pixelFormat = 1, renderContext = 3, view = 2, viewAttachment = 4,
       lastSwapTime = 0, minSwapTimeMs = 0, underrunCounter = 0,
       displayLinkTarget = 200, displayLinkRef = 1\<rparr>,
      \<lparr>calls = [CVDisplayLinkCreateWithCGDisplay 1, CVDisplayLinkSetOutputCallback 1 100,
                CVDisplayLinkSetCurrentCGDisplayFromOpenGLContext 1 3 1, CVDisplayLinkStart 1,
                CVDisplayLinkStart 1],
       displayLinks = [1 \<mapsto> \<lparr>outputCallbackContext = Some 100, isRunning = True\<rparr>],
       linksCreated = 1, currentContext = 0\<rparr>)"
  unfolding twoTargets_def oneTarget_def [symmetric] oneTarget_eq
  by (simp add: setDisplayLinkTarget_def Let_def call_def updateLink_def)

text \<open>
  Claim C2 at a failing input. A new context is given the target at address 100 and then,
  with no call in between, the target at address 200. There is one display link and the
  stored target is 200, but the user data registered with the output callback is still 100:
  a display refresh calls \<^verbatim>\<open>displayLink\<close> on the target at 100, not on the one at 200.
\<close>

theorem replaced_target_is_not_called:
  "displayLinkTarget (fst twoTargets) = 200
   \<and> displayLinkRef (fst twoTargets) = 1
   \<and> activeLinks twoTargets = {1}
   \<and> vsync 1 (snd twoTargets) = Some (Inr 100)
   \<and> vsync 1 (snd twoTargets) \<noteq> Some (Inr 200)"
  by (simp add: twoTargets_eq vsync_def displayLinkOutputCallback_def activeLinks_def)

text \<open>Claim C6 on a context with a display link, and on a new context.\<close>

theorem setDisplayLinkTarget_null_idempotent_witness:
  "displayLinkRef (fst oneTarget) \<noteq> nullptr
   \<and> fst (setDisplayLinkTarget nullptr oneTarget)
        = (fst oneTarget)\<lparr>displayLinkRef := nullptr, displayLinkTarget := nullptr\<rparr>
   \<and> calls (snd (setDisplayLinkTarget nullptr oneTarget))
        = calls (snd oneTarget) @ [CVDisplayLinkStop 1, CVDisplayLinkRelease 1]
   \<and> displayLinkRef (fst (setDisplayLinkTarget nullptr oneTarget)) = nullptr
   \<and> displayLinkTarget (fst (setDisplayLinkTarget nullptr oneTarget)) = nullptr
   \<and> setDisplayLinkTarget nullptr (setDisplayLinkTarget nullptr oneTarget)
        = setDisplayLinkTarget nullptr oneTarget
   \<and> setDisplayLinkTarget nullptr (NativeContext_ctor 1 2 3 4, initialPlatform)
        = (NativeContext_ctor 1 2 3 4, initialPlatform)"
proof -
  have r: "displayLinkRef (fst oneTarget) = 1" by (simp add: oneTarget_eq)
  have z: "displayLinkRef (NativeContext_ctor 1 2 3 4) = nullptr
           \<and> displayLinkTarget (NativeContext_ctor 1 2 3 4) = nullptr"
    by (simp add: NativeContext_ctor_def)
  show ?thesis
    using r z
      setDisplayLinkTarget_null_idempotent [of "fst oneTarget" "snd oneTarget"]
      setDisplayLinkTarget_null_idempotent [of "NativeContext_ctor 1 2 3 4" initialPlatform]
    by simp
qed

text \<open>
  The same for any two targets: the second call finds a display link, so it skips the
  registration of the callback.
\<close>

lemma replaced_target_general:
  assumes "displayLinkRef nc = nullptr" "t1 \<noteq> nullptr" "t2 \<noteq> nullptr"
  shows "vsync (displayLinkRef (fst (setDisplayLinkTarget t2 (setDisplayLinkTarget t1 (nc, p)))))
           (snd (setDisplayLinkTarget t2 (setDisplayLinkTarget t1 (nc, p)))) = Some (Inr t1)"
  using assms
  by (simp add: setDisplayLinkTarget_def Let_def call_def newDisplayLink_def updateLink_def
      vsync_def displayLinkOutputCallback_def)

lemma only_link_removed: "dom m = {r} \<Longrightarrow> m(r := None) = Map.empty"
proof -
  assume "dom m = {r}"
  then have "dom (m(r := None)) = {}" by simp
  then show ?thesis by (simp only: dom_eq_empty_conv)
qed

lemma linkInv_setDisplayLinkTarget:
  "linkInv s \<Longrightarrow> linkInv (setDisplayLinkTarget t s)"
  by (cases s)
     (auto simp: linkInv_def setDisplayLinkTarget_def Let_def call_def newDisplayLink_def
        updateLink_def only_link_removed split: option.splits if_splits)

text \<open>After any sequence of \<^verbatim>\<open>setDisplayLinkTarget\<close> calls at most one display link exists.\<close>

lemma at_most_one_display_link:
  "card (activeLinks (fold setDisplayLinkTarget ts (NativeContext_ctor pf v rc va, initialPlatform))) \<le> 1"
proof -
  have "linkInv (fold setDisplayLinkTarget ts s)" if "linkInv s" for s
    using that by (induction ts arbitrary: s) (simp_all add: linkInv_setDisplayLinkTarget)
  moreover have "linkInv (NativeContext_ctor pf v rc va, initialPlatform)"
    by (simp add: linkInv_def NativeContext_ctor_def initialPlatform_def)
  ultimately have "linkInv (fold setDisplayLinkTarget ts (NativeContext_ctor pf v rc va, initialPlatform))"
    by blast
  then show ?thesis
    by (cases "fold setDisplayLinkTarget ts (NativeContext_ctor pf v rc va, initialPlatform)")
       (simp add: linkInv_def activeLinks_def split: if_splits)
qed

section \<open>Properties of \<open>isActive\<close>\<close>




end
